theory Spec2Isabelle
  imports Main "HOL-Library.Finite_Map" "HOL-Library.List_Lexorder" "HOL-Library.Char_ord"
begin

section \<open>Data model (api/v1alpha1/sharedresource_types.go)\<close>

text \<open>
  Go strings and byte slices are byte sequences: both are modelled as \<open>string\<close>, so the
  conversions \<open>[]byte(v)\<close> and \<open>string(v)\<close> are the identity. A Go map is a finite map
  with unique keys: \<open>map[string][]byte\<close> and \<open>map[string]string\<close> are
  \<open>(string, string) fmap\<close>. A nil map reads like the empty map.
\<close>

type_synonym kvdata = "(string, string) fmap"

type_synonym time = nat

type_synonym key = "string \<times> string"
  \<comment> \<open>types.NamespacedName: (Namespace, Name)\<close>

record SourceSpec =
  Source_Kind :: string
  Source_Name :: string

record TargetSpec =
  Target_Namespace :: string
  Target_Name :: string

record KeySelector =
  Include :: "string list"
  Exclude :: "string list"

record SyncPolicySpec =
  Mode :: string
  Keys :: "KeySelector option"

definition SyncModeCopy :: string where
  "SyncModeCopy = ''copy''"

definition SyncModeSelective :: string where
  "SyncModeSelective = ''selective''"

definition DeletionPolicyOrphan :: string where
  "DeletionPolicyOrphan = ''orphan''"

definition DeletionPolicyDelete :: string where
  "DeletionPolicyDelete = ''delete''"

record SharedResourceSpec =
  Source :: SourceSpec
  Targets :: "TargetSpec list"
  SyncPolicy :: "SyncPolicySpec option"
  DeletionPolicy :: string

datatype ConditionStatus = ConditionTrue | ConditionFalse | ConditionUnknown

record Condition =
  Condition_Type :: string
  Condition_Status :: ConditionStatus
  ObservedGeneration :: int
  LastTransitionTime :: time
  Reason :: string
  Message :: string

record TargetSyncStatus =
  Synced_Namespace :: string
  Synced_Name :: string
  Synced :: bool
  LastSynced :: time
  Error :: string

record SharedResourceStatus =
  Conditions :: "Condition list"
  SyncedTargets :: "TargetSyncStatus list"
  LastSyncTime :: "time option"
  SourceChecksum :: string

record SharedResource =
  Namespace :: string
  Name :: string
  DeletionTimestamp :: "time option"
  Finalizers :: "string list"
  Spec :: SharedResourceSpec
  Status :: SharedResourceStatus

section \<open>Constants (internal/controller/constants.go)\<close>

definition FinalizerName :: string where
  "FinalizerName = ''sharedresource.platform.dev/finalizer''"

definition AnnotationManagedBy :: string where
  "AnnotationManagedBy = ''sharedresource.platform.dev/managed-by''"

definition AnnotationSourceNamespace :: string where
  "AnnotationSourceNamespace = ''sharedresource.platform.dev/source-namespace''"

definition AnnotationSourceName :: string where
  "AnnotationSourceName = ''sharedresource.platform.dev/source-name''"

definition AnnotationSourceCR :: string where
  "AnnotationSourceCR = ''sharedresource.platform.dev/source-cr''"

definition AnnotationChecksum :: string where
  "AnnotationChecksum = ''sharedresource.platform.dev/checksum''"

definition AnnotationLastSynced :: string where
  "AnnotationLastSynced = ''sharedresource.platform.dev/last-synced''"

definition ManagedByValue :: string where
  "ManagedByValue = ''sharedresource-operator''"

definition ConditionTypeReady :: string where
  "ConditionTypeReady = ''Ready''"

definition ConditionTypeSourceFound :: string where
  "ConditionTypeSourceFound = ''SourceFound''"

text \<open>
  Modelled from the spec: the constants \<open>KindSecret\<close> and \<open>KindConfigMap\<close> are used by
  sync.go but their declaration is not among the sources. The two supported source kinds
  are "Secret" and "ConfigMap" (the values of the kind enumeration of the Intent and the
  literals the correlation functions pass).
\<close>

definition KindSecret :: string where
  "KindSecret = ''Secret''"

definition KindConfigMap :: string where
  "KindConfigMap = ''ConfigMap''"

section \<open>Helpers (internal/controller/helpers.go)\<close>

subsection \<open>computeChecksum\<close>

text \<open>
  \<open>computeChecksum\<close> collects the keys of the map, sorts them with \<open>sort.Strings\<close>
  (bytewise lexicographic order, the order of \<open>string\<close> here), writes
  \<open>k\<close>, \<open>=\<close>, \<open>data[k]\<close>, newline for each key into a SHA-256 hasher and returns the
  hexadecimal digest. The hash of the Go standard library is a parameter:
  \<open>sha256hex s\<close> stands for \<open>hex.EncodeToString\<close> of the SHA-256 digest of \<open>s\<close>.
  \<open>computeChecksumFrom\<close> is the function for a given iteration order \<open>ks\<close> of the
  map's keys; a Go map yields each key once, in no fixed order.
\<close>

definition lookupBytes :: "kvdata \<Rightarrow> string \<Rightarrow> string" where
  "lookupBytes data k = (case fmlookup data k of Some v \<Rightarrow> v | None \<Rightarrow> [])"

definition hashRecord :: "kvdata \<Rightarrow> string \<Rightarrow> string" where
  "hashRecord data k = k @ ''='' @ lookupBytes data k @ [CHR 0x0A]"

definition hashedBytes :: "kvdata \<Rightarrow> string list \<Rightarrow> string" where
  "hashedBytes data keys = concat (map (hashRecord data) keys)"

definition computeChecksumFrom :: "(string \<Rightarrow> string) \<Rightarrow> kvdata \<Rightarrow> string list \<Rightarrow> string" where
  "computeChecksumFrom sha256hex data ks = sha256hex (hashedBytes data (sort ks))"

definition computeChecksum :: "(string \<Rightarrow> string) \<Rightarrow> kvdata \<Rightarrow> string" where
  "computeChecksum sha256hex data =
     computeChecksumFrom sha256hex data (sorted_list_of_fset (fmdom data))"

subsection \<open>filterData\<close>

definition includeKey :: "kvdata \<Rightarrow> kvdata \<Rightarrow> string \<Rightarrow> kvdata" where
  "includeKey data filtered k =
     (case fmlookup data k of Some v \<Rightarrow> fmupd k v filtered | None \<Rightarrow> filtered)"

definition excludeKey :: "kvdata \<Rightarrow> string \<Rightarrow> kvdata" where
  "excludeKey filtered k = fmdrop k filtered"

definition filterData :: "kvdata \<Rightarrow> SyncPolicySpec option \<Rightarrow> kvdata" where
  "filterData data policy =
     (case policy of
        None \<Rightarrow> data
      | Some p \<Rightarrow>
          if Mode p = [] \<or> Mode p = SyncModeCopy then data
          else (case Keys p of
                  None \<Rightarrow> data
                | Some ks \<Rightarrow>
                    let filtered =
                          (if length (Include ks) > 0
                           then foldl (includeKey data) fmempty (Include ks)
                           else data)
                    in foldl excludeKey filtered (Exclude ks)))"

subsection \<open>setCondition\<close>

text \<open>
  The loop of \<open>setCondition\<close> over \<open>sr.Status.Conditions\<close>: the first entry of the given
  type is rewritten and the loop returns; when no entry has the type, the new condition is
  appended. \<open>now\<close> is the reading of \<open>metav1.Now()\<close>.
\<close>

fun setConditionIn :: "Condition list \<Rightarrow> Condition \<Rightarrow> Condition list" where
  "setConditionIn [] condition = [condition]"
| "setConditionIn (existing # rest) condition =
     (if Condition_Type existing = Condition_Type condition then
        (if Condition_Status existing \<noteq> Condition_Status condition
         then condition # rest
         else existing\<lparr>Reason := Reason condition, Message := Message condition\<rparr> # rest)
      else existing # setConditionIn rest condition)"

definition setCondition ::
  "time \<Rightarrow> SharedResource \<Rightarrow> string \<Rightarrow> ConditionStatus \<Rightarrow> string \<Rightarrow> string \<Rightarrow> SharedResource" where
  "setCondition now sr condType status reason message =
     (let condition = \<lparr>Condition_Type = condType, Condition_Status = status,
                         ObservedGeneration = 0, LastTransitionTime = now,
                         Reason = reason, Message = message\<rparr>
      in sr\<lparr>Status := (Status sr)\<lparr>Conditions := setConditionIn (Conditions (Status sr)) condition\<rparr>\<rparr>)"

section \<open>The object store (client.Client)\<close>

text \<open>
  The store holds Secrets and ConfigMaps under their key (namespace, name): the
  \<open>ObjectMeta\<close> name and namespace of an object are the key it is stored under, so the
  object records carry the remaining fields. Intents are kept in a list, the order in which
  \<open>List\<close> returns them. Every call can fail with an error of the API server or the
  transport (\<open>faults\<close>); a call that finds no object fails with \<open>NotFound\<close>. Every
  mutating call issued is appended to \<open>requests\<close>, whether it succeeds or not.
\<close>

datatype error = NotFound | AlreadyExists | ApiError string | Errorf string

definition IsNotFound :: "error \<Rightarrow> bool" where
  "IsNotFound err = (err = NotFound)"

fun errorString :: "error \<Rightarrow> string" where
  "errorString NotFound = ''not found''"
| "errorString AlreadyExists = ''already exists''"
| "errorString (ApiError msg) = msg"
| "errorString (Errorf msg) = msg"

record Secret =
  Secret_Annotations :: kvdata
  Secret_Type :: string
  Secret_Data :: kvdata

record ConfigMap =
  ConfigMap_Annotations :: kvdata
  ConfigMap_Data :: kvdata

datatype call =
    CallGetSecret key | CallCreateSecret key | CallUpdateSecret key | CallDeleteSecret key
  | CallGetConfigMap key | CallCreateConfigMap key | CallUpdateConfigMap key | CallDeleteConfigMap key
  | CallGet key | CallUpdate key | CallStatusUpdate key | CallList string

datatype request =
    ReqCreateSecret key Secret | ReqUpdateSecret key Secret | ReqDeleteSecret key
  | ReqCreateConfigMap key ConfigMap | ReqUpdateConfigMap key ConfigMap | ReqDeleteConfigMap key
  | ReqUpdate SharedResource | ReqStatusUpdate SharedResource

record cluster =
  secrets :: "key \<rightharpoonup> Secret"
  configMaps :: "key \<rightharpoonup> ConfigMap"
  sharedResources :: "SharedResource list"
  faults :: "call \<Rightarrow> string option"
  requests :: "request list"

definition issue :: "cluster \<Rightarrow> request \<Rightarrow> cluster" where
  "issue c r = c\<lparr>requests := requests c @ [r]\<rparr>"

definition getSecret :: "cluster \<Rightarrow> key \<Rightarrow> error + Secret" where
  "getSecret c k =
     (case faults c (CallGetSecret k) of
        Some msg \<Rightarrow> Inl (ApiError msg)
      | None \<Rightarrow> (case secrets c k of None \<Rightarrow> Inl NotFound | Some s \<Rightarrow> Inr s))"

definition createSecret :: "cluster \<Rightarrow> key \<Rightarrow> Secret \<Rightarrow> error option \<times> cluster" where
  "createSecret c k s =
     (let c' = issue c (ReqCreateSecret k s) in
      case faults c (CallCreateSecret k) of
        Some msg \<Rightarrow> (Some (ApiError msg), c')
      | None \<Rightarrow> (case secrets c k of
                   Some _ \<Rightarrow> (Some AlreadyExists, c')
                 | None \<Rightarrow> (None, c'\<lparr>secrets := (secrets c)(k \<mapsto> s)\<rparr>)))"

definition updateSecret :: "cluster \<Rightarrow> key \<Rightarrow> Secret \<Rightarrow> error option \<times> cluster" where
  "updateSecret c k s =
     (let c' = issue c (ReqUpdateSecret k s) in
      case faults c (CallUpdateSecret k) of
        Some msg \<Rightarrow> (Some (ApiError msg), c')
      | None \<Rightarrow> (case secrets c k of
                   None \<Rightarrow> (Some NotFound, c')
                 | Some _ \<Rightarrow> (None, c'\<lparr>secrets := (secrets c)(k \<mapsto> s)\<rparr>)))"

definition deleteSecret :: "cluster \<Rightarrow> key \<Rightarrow> error option \<times> cluster" where
  "deleteSecret c k =
     (let c' = issue c (ReqDeleteSecret k) in
      case faults c (CallDeleteSecret k) of
        Some msg \<Rightarrow> (Some (ApiError msg), c')
      | None \<Rightarrow> (case secrets c k of
                   None \<Rightarrow> (Some NotFound, c')
                 | Some _ \<Rightarrow> (None, c'\<lparr>secrets := (secrets c)(k := None)\<rparr>)))"

definition getConfigMap :: "cluster \<Rightarrow> key \<Rightarrow> error + ConfigMap" where
  "getConfigMap c k =
     (case faults c (CallGetConfigMap k) of
        Some msg \<Rightarrow> Inl (ApiError msg)
      | None \<Rightarrow> (case configMaps c k of None \<Rightarrow> Inl NotFound | Some m \<Rightarrow> Inr m))"

definition createConfigMap :: "cluster \<Rightarrow> key \<Rightarrow> ConfigMap \<Rightarrow> error option \<times> cluster" where
  "createConfigMap c k m =
     (let c' = issue c (ReqCreateConfigMap k m) in
      case faults c (CallCreateConfigMap k) of
        Some msg \<Rightarrow> (Some (ApiError msg), c')
      | None \<Rightarrow> (case configMaps c k of
                   Some _ \<Rightarrow> (Some AlreadyExists, c')
                 | None \<Rightarrow> (None, c'\<lparr>configMaps := (configMaps c)(k \<mapsto> m)\<rparr>)))"

definition updateConfigMap :: "cluster \<Rightarrow> key \<Rightarrow> ConfigMap \<Rightarrow> error option \<times> cluster" where
  "updateConfigMap c k m =
     (let c' = issue c (ReqUpdateConfigMap k m) in
      case faults c (CallUpdateConfigMap k) of
        Some msg \<Rightarrow> (Some (ApiError msg), c')
      | None \<Rightarrow> (case configMaps c k of
                   None \<Rightarrow> (Some NotFound, c')
                 | Some _ \<Rightarrow> (None, c'\<lparr>configMaps := (configMaps c)(k \<mapsto> m)\<rparr>)))"

definition deleteConfigMap :: "cluster \<Rightarrow> key \<Rightarrow> error option \<times> cluster" where
  "deleteConfigMap c k =
     (let c' = issue c (ReqDeleteConfigMap k) in
      case faults c (CallDeleteConfigMap k) of
        Some msg \<Rightarrow> (Some (ApiError msg), c')
      | None \<Rightarrow> (case configMaps c k of
                   None \<Rightarrow> (Some NotFound, c')
                 | Some _ \<Rightarrow> (None, c'\<lparr>configMaps := (configMaps c)(k := None)\<rparr>)))"

definition keyOf :: "SharedResource \<Rightarrow> key" where
  "keyOf sr = (Namespace sr, Name sr)"

definition getSharedResource :: "cluster \<Rightarrow> key \<Rightarrow> error + SharedResource" where
  "getSharedResource c k =
     (case faults c (CallGet k) of
        Some msg \<Rightarrow> Inl (ApiError msg)
      | None \<Rightarrow> (case find (\<lambda>x. keyOf x = k) (sharedResources c) of
                   None \<Rightarrow> Inl NotFound
                 | Some sr \<Rightarrow> Inr sr))"

text \<open>
  \<open>Update\<close> of an Intent writes its metadata and spec (the status is a subresource and is
  kept); the store removes an Intent that is marked for deletion once its last finalizer
  is gone. \<open>Status().Update\<close> writes the status only.
\<close>

definition updateSharedResource :: "cluster \<Rightarrow> SharedResource \<Rightarrow> error option \<times> cluster" where
  "updateSharedResource c sr =
     (let c' = issue c (ReqUpdate sr) in
      case faults c (CallUpdate (keyOf sr)) of
        Some msg \<Rightarrow> (Some (ApiError msg), c')
      | None \<Rightarrow>
          (case find (\<lambda>x. keyOf x = keyOf sr) (sharedResources c) of
             None \<Rightarrow> (Some NotFound, c')
           | Some _ \<Rightarrow>
               (None, c'\<lparr>sharedResources :=
                  (if DeletionTimestamp sr \<noteq> None \<and> Finalizers sr = []
                   then filter (\<lambda>x. keyOf x \<noteq> keyOf sr) (sharedResources c)
                   else map (\<lambda>x. if keyOf x = keyOf sr then sr\<lparr>Status := Status x\<rparr> else x)
                          (sharedResources c))\<rparr>)))"

definition statusUpdate :: "cluster \<Rightarrow> SharedResource \<Rightarrow> error option \<times> cluster" where
  "statusUpdate c sr =
     (let c' = issue c (ReqStatusUpdate sr) in
      case faults c (CallStatusUpdate (keyOf sr)) of
        Some msg \<Rightarrow> (Some (ApiError msg), c')
      | None \<Rightarrow>
          (case find (\<lambda>x. keyOf x = keyOf sr) (sharedResources c) of
             None \<Rightarrow> (Some NotFound, c')
           | Some _ \<Rightarrow>
               (None, c'\<lparr>sharedResources :=
                  map (\<lambda>x. if keyOf x = keyOf sr then x\<lparr>Status := Status sr\<rparr> else x)
                    (sharedResources c)\<rparr>)))"

definition listSharedResources :: "cluster \<Rightarrow> string \<Rightarrow> error + SharedResource list" where
  "listSharedResources c ns =
     (case faults c (CallList ns) of
        Some msg \<Rightarrow> Inl (ApiError msg)
      | None \<Rightarrow> Inr (filter (\<lambda>sr. Namespace sr = ns) (sharedResources c)))"

section \<open>Sync operations (internal/controller/sync.go)\<close>

text \<open>
  A reading of the clock: \<open>metav1.Now()\<close> and its RFC 3339 rendering
  (\<open>time.Now().UTC().Format(time.RFC3339)\<close>). One pass is modelled at one instant.
\<close>

record clock =
  Now :: time
  NowRFC3339 :: string

definition fetchSourceResource :: "cluster \<Rightarrow> SharedResource \<Rightarrow> error + (kvdata \<times> string)" where
  "fetchSourceResource c sr =
     (let sourceKey = (Namespace sr, Source_Name (Source (Spec sr))) in
      if Source_Kind (Source (Spec sr)) = KindSecret then
        (case getSecret c sourceKey of
           Inl err \<Rightarrow> Inl err
         | Inr secret \<Rightarrow> Inr (Secret_Data secret, Secret_Type secret))
      else if Source_Kind (Source (Spec sr)) = KindConfigMap then
        (case getConfigMap c sourceKey of
           Inl err \<Rightarrow> Inl err
         | Inr cm \<Rightarrow> Inr (ConfigMap_Data cm, []))
      else Inl (Errorf (''unsupported source kind: '' @ Source_Kind (Source (Spec sr)))))"

text \<open>
  The data the target is to hold: in merge mode the existing data overlaid with the
  source data (the two \<open>range\<close> loops into a fresh map), otherwise the source data.
\<close>

definition targetData :: "string \<Rightarrow> kvdata \<Rightarrow> kvdata \<Rightarrow> kvdata" where
  "targetData syncMode existingData data =
     (if syncMode = ''merge'' then (fmempty ++\<^sub>f existingData) ++\<^sub>f data else data)"

definition syncSecret ::
  "(string \<Rightarrow> string) \<Rightarrow> cluster \<Rightarrow> key \<Rightarrow> kvdata \<Rightarrow> string \<Rightarrow> kvdata \<Rightarrow> string
     \<Rightarrow> error option \<times> cluster" where
  "syncSecret sha256hex c targetKey data secretType annotations syncMode =
     (case getSecret c targetKey of
        Inl err \<Rightarrow>
          if IsNotFound err then
            createSecret c targetKey
              \<lparr>Secret_Annotations = annotations, Secret_Type = secretType, Secret_Data = data\<rparr>
          else (Some err, c)
      | Inr existing \<Rightarrow>
          let newData = targetData syncMode (Secret_Data existing) data;
              existingDataChecksum = computeChecksum sha256hex (Secret_Data existing);
              newDataChecksum = computeChecksum sha256hex newData
          in if existingDataChecksum = newDataChecksum then (None, c)
             else updateSecret c targetKey
                    (existing\<lparr>Secret_Data := newData, Secret_Type := secretType,
                       Secret_Annotations := Secret_Annotations existing ++\<^sub>f annotations\<rparr>))"

definition syncConfigMap ::
  "(string \<Rightarrow> string) \<Rightarrow> cluster \<Rightarrow> key \<Rightarrow> kvdata \<Rightarrow> kvdata \<Rightarrow> string
     \<Rightarrow> error option \<times> cluster" where
  "syncConfigMap sha256hex c targetKey data annotations syncMode =
     (let stringData = data in
      case getConfigMap c targetKey of
        Inl err \<Rightarrow>
          if IsNotFound err then
            createConfigMap c targetKey
              \<lparr>ConfigMap_Annotations = annotations, ConfigMap_Data = stringData\<rparr>
          else (Some err, c)
      | Inr existing \<Rightarrow>
          let newData = targetData syncMode (ConfigMap_Data existing) stringData;
              existingDataChecksum = computeChecksum sha256hex (ConfigMap_Data existing);
              newDataChecksum = computeChecksum sha256hex newData
          in if existingDataChecksum = newDataChecksum then (None, c)
             else updateConfigMap c targetKey
                    (existing\<lparr>ConfigMap_Data := newData,
                       ConfigMap_Annotations := ConfigMap_Annotations existing ++\<^sub>f annotations\<rparr>))"

definition trackingAnnotations :: "clock \<Rightarrow> SharedResource \<Rightarrow> string \<Rightarrow> kvdata" where
  "trackingAnnotations clk sr checksum =
     fmap_of_list
       [(AnnotationManagedBy, ManagedByValue),
        (AnnotationSourceNamespace, Namespace sr),
        (AnnotationSourceName, Source_Name (Source (Spec sr))),
        (AnnotationSourceCR, Name sr),
        (AnnotationChecksum, checksum),
        (AnnotationLastSynced, NowRFC3339 clk)]"

definition syncModeOf :: "SharedResource \<Rightarrow> string" where
  "syncModeOf sr =
     (case SyncPolicy (Spec sr) of
        None \<Rightarrow> ''copy''
      | Some p \<Rightarrow> if Mode p \<noteq> [] then Mode p else ''copy'')"

definition syncToTarget ::
  "(string \<Rightarrow> string) \<Rightarrow> clock \<Rightarrow> cluster \<Rightarrow> SharedResource \<Rightarrow> string \<Rightarrow> string \<Rightarrow> kvdata
     \<Rightarrow> string \<Rightarrow> string \<Rightarrow> error option \<times> cluster" where
  "syncToTarget sha256hex clk c sr targetNamespace targetName data secretType checksum =
     (let syncMode = syncModeOf sr;
          annotations = trackingAnnotations clk sr checksum;
          targetKey = (targetNamespace, targetName)
      in if Source_Kind (Source (Spec sr)) = KindSecret then
           syncSecret sha256hex c targetKey data secretType annotations syncMode
         else if Source_Kind (Source (Spec sr)) = KindConfigMap then
           syncConfigMap sha256hex c targetKey data annotations syncMode
         else (Some (Errorf (''unsupported source kind: '' @ Source_Kind (Source (Spec sr)))), c))"

definition resolvedName :: "SharedResource \<Rightarrow> TargetSpec \<Rightarrow> string" where
  "resolvedName sr target =
     (if Target_Name target = [] then Source_Name (Source (Spec sr)) else Target_Name target)"

definition managedByUs :: "kvdata \<Rightarrow> bool" where
  "managedByUs annotations = (lookupBytes annotations AnnotationManagedBy = ManagedByValue)"

text \<open>
  The loop of \<open>deleteTargetResources\<close> over \<open>sr.Spec.Targets\<close>; an error other than
  \<open>NotFound\<close> ends it.
\<close>

fun deleteTargets :: "cluster \<Rightarrow> SharedResource \<Rightarrow> TargetSpec list \<Rightarrow> error option \<times> cluster" where
  "deleteTargets c sr [] = (None, c)"
| "deleteTargets c sr (target # rest) =
     (let targetKey = (Target_Namespace target, resolvedName sr target) in
      if Source_Kind (Source (Spec sr)) = KindSecret then
        (case getSecret c targetKey of
           Inl err \<Rightarrow> if IsNotFound err then deleteTargets c sr rest else (Some err, c)
         | Inr secret \<Rightarrow>
             if managedByUs (Secret_Annotations secret) then
               (case deleteSecret c targetKey of
                  (Some err, c') \<Rightarrow>
                    if \<not> IsNotFound err then (Some err, c') else deleteTargets c' sr rest
                | (None, c') \<Rightarrow> deleteTargets c' sr rest)
             else deleteTargets c sr rest)
      else if Source_Kind (Source (Spec sr)) = KindConfigMap then
        (case getConfigMap c targetKey of
           Inl err \<Rightarrow> if IsNotFound err then deleteTargets c sr rest else (Some err, c)
         | Inr cm \<Rightarrow>
             if managedByUs (ConfigMap_Annotations cm) then
               (case deleteConfigMap c targetKey of
                  (Some err, c') \<Rightarrow>
                    if \<not> IsNotFound err then (Some err, c') else deleteTargets c' sr rest
                | (None, c') \<Rightarrow> deleteTargets c' sr rest)
             else deleteTargets c sr rest)
      else deleteTargets c sr rest)"

definition deleteTargetResources :: "cluster \<Rightarrow> SharedResource \<Rightarrow> error option \<times> cluster" where
  "deleteTargetResources c sr = deleteTargets c sr (Targets (Spec sr))"

section \<open>The reconciler (internal/controller/sharedresource_controller.go)\<close>

record Result =
  Requeue :: bool
  RequeueAfter :: nat
  \<comment> \<open>ctrl.Result; RequeueAfter in seconds\<close>

definition emptyResult :: Result where
  "emptyResult = \<lparr>Requeue = False, RequeueAfter = 0\<rparr>"

definition IsZero :: "time option \<Rightarrow> bool" where
  "IsZero t = (case t of None \<Rightarrow> True | Some v \<Rightarrow> v = 0)"

definition ContainsFinalizer :: "SharedResource \<Rightarrow> string \<Rightarrow> bool" where
  "ContainsFinalizer sr f = (f \<in> set (Finalizers sr))"

definition AddFinalizer :: "SharedResource \<Rightarrow> string \<Rightarrow> SharedResource" where
  "AddFinalizer sr f = (if f \<in> set (Finalizers sr) then sr else sr\<lparr>Finalizers := Finalizers sr @ [f]\<rparr>)"

definition RemoveFinalizer :: "SharedResource \<Rightarrow> string \<Rightarrow> SharedResource" where
  "RemoveFinalizer sr f = sr\<lparr>Finalizers := filter (\<lambda>x. x \<noteq> f) (Finalizers sr)\<rparr>"

definition handleDeletion :: "cluster \<Rightarrow> SharedResource \<Rightarrow> (Result \<times> error option) \<times> cluster" where
  "handleDeletion c sr =
     (if ContainsFinalizer sr FinalizerName then
        (case (if DeletionPolicy (Spec sr) = DeletionPolicyDelete
               then deleteTargetResources c sr else (None, c)) of
           (Some err, c') \<Rightarrow> ((emptyResult, Some err), c')
         | (None, c') \<Rightarrow>
             (case updateSharedResource c' (RemoveFinalizer sr FinalizerName) of
                (Some err, c'') \<Rightarrow> ((emptyResult, Some err), c'')
              | (None, c'') \<Rightarrow> ((emptyResult, None), c'')))
      else ((emptyResult, None), c))"

definition handleSourceError ::
  "clock \<Rightarrow> cluster \<Rightarrow> SharedResource \<Rightarrow> error \<Rightarrow> (Result \<times> error option) \<times> cluster" where
  "handleSourceError clk c sr err =
     (if IsNotFound err then
        (let sr1 = setCondition (Now clk) sr ConditionTypeSourceFound ConditionFalse ''SourceNotFound''
                     (''Source '' @ Source_Kind (Source (Spec sr)) @ ''/''
                        @ Source_Name (Source (Spec sr)) @ '' not found'');
             sr2 = setCondition (Now clk) sr1 ConditionTypeReady ConditionFalse ''SourceNotFound''
                     ''Cannot sync: source resource not found'';
             (statusErr, c') = statusUpdate c sr2
         in ((\<lparr>Requeue = False, RequeueAfter = 30\<rparr>, None), c'))
      else ((emptyResult, Some err), c))"

text \<open>
  The loop of \<open>syncAllTargets\<close> over \<open>sr.Spec.Targets\<close>: every target gets a record,
  and \<open>allSynced\<close> is true when no call of \<open>syncToTarget\<close> returned an error.
\<close>

fun syncTargets ::
  "(string \<Rightarrow> string) \<Rightarrow> clock \<Rightarrow> cluster \<Rightarrow> SharedResource \<Rightarrow> kvdata \<Rightarrow> string \<Rightarrow> string
     \<Rightarrow> TargetSpec list \<Rightarrow> (TargetSyncStatus list \<times> bool) \<times> cluster" where
  "syncTargets sha256hex clk c sr data sourceType checksum [] = (([], True), c)"
| "syncTargets sha256hex clk c sr data sourceType checksum (target # rest) =
     (let targetName = resolvedName sr target;
          (err, c') = syncToTarget sha256hex clk c sr (Target_Namespace target) targetName
                        data sourceType checksum;
          targetStatus =
            (case err of
               Some e \<Rightarrow> \<lparr>Synced_Namespace = Target_Namespace target, Synced_Name = targetName,
                           Synced = False, LastSynced = 0, Error = errorString e\<rparr>
             | None \<Rightarrow> \<lparr>Synced_Namespace = Target_Namespace target, Synced_Name = targetName,
                         Synced = True, LastSynced = Now clk, Error = []\<rparr>);
          ((statuses, allSynced), c'') =
            syncTargets sha256hex clk c' sr data sourceType checksum rest
      in ((targetStatus # statuses, err = None \<and> allSynced), c''))"

definition syncAllTargets ::
  "(string \<Rightarrow> string) \<Rightarrow> clock \<Rightarrow> cluster \<Rightarrow> SharedResource \<Rightarrow> kvdata \<Rightarrow> string \<Rightarrow> string
     \<Rightarrow> (TargetSyncStatus list \<times> bool) \<times> cluster" where
  "syncAllTargets sha256hex clk c sr data sourceType checksum =
     syncTargets sha256hex clk c sr data sourceType checksum (Targets (Spec sr))"

text \<open>
  \<open>updateStatus\<close> first rewrites the Intent in memory (\<open>statusOf\<close>), then persists it
  with \<open>Status().Update\<close>.
\<close>

definition statusOf ::
  "clock \<Rightarrow> SharedResource \<Rightarrow> TargetSyncStatus list \<Rightarrow> string \<Rightarrow> bool \<Rightarrow> SharedResource" where
  "statusOf clk sr syncedTargets checksum allSynced =
     (let sr1 = sr\<lparr>Status := (Status sr)\<lparr>SyncedTargets := syncedTargets,
                                           SourceChecksum := checksum\<rparr>\<rparr>
      in if allSynced then
           setCondition (Now clk) (sr1\<lparr>Status := (Status sr1)\<lparr>LastSyncTime := Some (Now clk)\<rparr>\<rparr>)
             ConditionTypeReady ConditionTrue ''SyncSuccessful'' ''All targets synced successfully''
         else
           setCondition (Now clk) sr1
             ConditionTypeReady ConditionFalse ''SyncFailed'' ''Some targets failed to sync'')"

definition updateStatus ::
  "clock \<Rightarrow> cluster \<Rightarrow> SharedResource \<Rightarrow> TargetSyncStatus list \<Rightarrow> string \<Rightarrow> bool
     \<Rightarrow> (Result \<times> error option) \<times> cluster" where
  "updateStatus clk c sr syncedTargets checksum allSynced =
     (case statusUpdate c (statusOf clk sr syncedTargets checksum allSynced) of
        (Some err, c') \<Rightarrow> ((emptyResult, Some err), c')
      | (None, c') \<Rightarrow> ((emptyResult, None), c'))"

definition Reconcile ::
  "(string \<Rightarrow> string) \<Rightarrow> clock \<Rightarrow> cluster \<Rightarrow> key \<Rightarrow> (Result \<times> error option) \<times> cluster" where
  "Reconcile sha256hex clk c req =
     (case getSharedResource c req of
        Inl err \<Rightarrow>
          if IsNotFound err then ((emptyResult, None), c) else ((emptyResult, Some err), c)
      | Inr sharedResource \<Rightarrow>
          if \<not> IsZero (DeletionTimestamp sharedResource) then handleDeletion c sharedResource
          else if \<not> ContainsFinalizer sharedResource FinalizerName then
            (case updateSharedResource c (AddFinalizer sharedResource FinalizerName) of
               (Some err, c') \<Rightarrow> ((emptyResult, Some err), c')
             | (None, c') \<Rightarrow> ((\<lparr>Requeue = True, RequeueAfter = 0\<rparr>, None), c'))
          else
            (case fetchSourceResource c sharedResource of
               Inl err \<Rightarrow> handleSourceError clk c sharedResource err
             | Inr (sourceData, sourceType) \<Rightarrow>
                 let sr1 = setCondition (Now clk) sharedResource ConditionTypeSourceFound
                             ConditionTrue ''SourceExists'' ''Source resource found'';
                     filteredData = filterData sourceData (SyncPolicy (Spec sr1));
                     checksum = computeChecksum sha256hex filteredData;
                     ((syncedTargets, allSynced), c') =
                       syncAllTargets sha256hex clk c sr1 filteredData sourceType checksum
                 in updateStatus clk c' sr1 syncedTargets checksum allSynced))"

subsection \<open>Correlation of watched objects with Intents\<close>

definition findSharedResourceForManagedResource :: "kvdata \<Rightarrow> string \<Rightarrow> key list" where
  "findSharedResourceForManagedResource annotations kind =
     (let sourceNamespace = lookupBytes annotations AnnotationSourceNamespace;
          sourceCR = lookupBytes annotations AnnotationSourceCR
      in if sourceNamespace = [] \<or> sourceCR = [] then []
         else [(sourceNamespace, sourceCR)])"

definition findSharedResourcesForSource :: "cluster \<Rightarrow> string \<Rightarrow> string \<Rightarrow> string \<Rightarrow> key list" where
  "findSharedResourcesForSource c namespace name kind =
     (case listSharedResources c namespace of
        Inl err \<Rightarrow> []
      | Inr items \<Rightarrow>
          map keyOf
            (filter (\<lambda>sr. Source_Kind (Source (Spec sr)) = kind
                          \<and> Source_Name (Source (Spec sr)) = name) items))"

definition findSharedResourcesForSecret :: "cluster \<Rightarrow> key \<Rightarrow> Secret \<Rightarrow> key list" where
  "findSharedResourcesForSecret c objKey secret =
     (if fmlookup (Secret_Annotations secret) AnnotationManagedBy = Some ManagedByValue
      then findSharedResourceForManagedResource (Secret_Annotations secret) ''Secret''
      else findSharedResourcesForSource c (fst objKey) (snd objKey) ''Secret'')"

definition findSharedResourcesForConfigMap :: "cluster \<Rightarrow> key \<Rightarrow> ConfigMap \<Rightarrow> key list" where
  "findSharedResourcesForConfigMap c objKey cm =
     (if fmlookup (ConfigMap_Annotations cm) AnnotationManagedBy = Some ManagedByValue
      then findSharedResourceForManagedResource (ConfigMap_Annotations cm) ''ConfigMap''
      else findSharedResourcesForSource c (fst objKey) (snd objKey) ''ConfigMap'')"

section \<open>Concrete inputs\<close>

definition samplePolicy :: SyncPolicySpec where
  "samplePolicy = \<lparr>Mode = ''selective'',
      Keys = Some \<lparr>Include = [''username'', ''token'', ''password''], Exclude = [''password'']\<rparr>\<rparr>"

definition sampleData :: kvdata where
  "sampleData = fmupd ''username'' ''admin'' (fmupd ''password'' ''secret123'' fmempty)"

definition conditionOf :: "time \<Rightarrow> string \<Rightarrow> ConditionStatus \<Rightarrow> string \<Rightarrow> string \<Rightarrow> Condition" where
  "conditionOf now condType status reason message =
     \<lparr>Condition_Type = condType, Condition_Status = status, ObservedGeneration = 0,
      LastTransitionTime = now, Reason = reason, Message = message\<rparr>"

definition sampleConditions :: "Condition list" where
  "sampleConditions =
     [\<lparr>Condition_Type = ''SourceFound'', Condition_Status = ConditionTrue, ObservedGeneration = 0,
       LastTransitionTime = 5, Reason = ''SourceExists'', Message = ''Source resource found''\<rparr>,
      \<lparr>Condition_Type = ''Ready'', Condition_Status = ConditionFalse, ObservedGeneration = 0,
       LastTransitionTime = 7, Reason = ''SyncFailed'', Message = ''Some targets failed to sync''\<rparr>]"

definition sampleIntent :: SharedResource where
  "sampleIntent =
     \<lparr>Namespace = ''security'', Name = ''sync-db-credentials'', DeletionTimestamp = None,
      Finalizers = [''sharedresource.platform.dev/finalizer''],
      Spec = \<lparr>Source = \<lparr>Source_Kind = ''Secret'', Source_Name = ''db-credentials''\<rparr>,
              Targets = [\<lparr>Target_Namespace = ''backend'', Target_Name = []\<rparr>,
                         \<lparr>Target_Namespace = ''jobs'', Target_Name = ''db''\<rparr>],
              SyncPolicy = None, DeletionPolicy = ''delete''\<rparr>,
      Status = \<lparr>Conditions = sampleConditions, SyncedTargets = [], LastSyncTime = None,
                SourceChecksum = []\<rparr>\<rparr>"

text \<open>
  The properties below hold for every digest function. Where a concrete run needs one,
  \<open>plainDigest\<close> (the hashed bytes themselves) takes the place of SHA-256.
\<close>

definition plainDigest :: "string \<Rightarrow> string" where
  "plainDigest s = s"

definition backendKey :: key where
  "backendKey = (''backend'', ''db-credentials'')"

definition noFaults :: "call \<Rightarrow> string option" where
  "noFaults = (\<lambda>_. None)"

definition sampleAnnotations :: kvdata where
  "sampleAnnotations = fmupd ''sharedresource.platform.dev/managed-by'' ''sharedresource-operator'' fmempty"

definition clusterEmpty :: cluster where
  "clusterEmpty = \<lparr>secrets = Map.empty, configMaps = Map.empty, sharedResources = [],
                    faults = noFaults, requests = []\<rparr>"

definition clusterUnmarked :: cluster where
  "clusterUnmarked =
     \<lparr>secrets = [backendKey \<mapsto>
         \<lparr>Secret_Annotations = fmempty, Secret_Type = ''Opaque'', Secret_Data = sampleData\<rparr>],
      configMaps = [backendKey \<mapsto>
         \<lparr>ConfigMap_Annotations = fmupd ''sharedresource.platform.dev/checksum'' ''stale'' fmempty,
          ConfigMap_Data = sampleData\<rparr>],
      sharedResources = [], faults = noFaults, requests = []\<rparr>"

definition driftedData :: kvdata where
  "driftedData = fmupd ''username'' ''admin'' (fmupd ''extra'' ''local'' fmempty)"

definition clusterDrifted :: cluster where
  "clusterDrifted =
     \<lparr>secrets = [backendKey \<mapsto>
         \<lparr>Secret_Annotations = sampleAnnotations, Secret_Type = ''Opaque'',
          Secret_Data = driftedData\<rparr>],
      configMaps = [backendKey \<mapsto>
         \<lparr>ConfigMap_Annotations = sampleAnnotations, ConfigMap_Data = driftedData\<rparr>],
      sharedResources = [], faults = noFaults, requests = []\<rparr>"








definition sampleClock :: clock where
  "sampleClock = \<lparr>Now = 1768651200, NowRFC3339 = ''2026-01-17T12:00:00Z''\<rparr>"

definition badKindIntent :: SharedResource where
  "badKindIntent =
     sampleIntent\<lparr>Spec := (Spec sampleIntent)
        \<lparr>Source := \<lparr>Source_Kind = ''Deployment'', Source_Name = ''db-credentials''\<rparr>\<rparr>,
        Status := \<lparr>Conditions = [], SyncedTargets = [], LastSyncTime = None, SourceChecksum = []\<rparr>\<rparr>"

definition clusterBadKind :: cluster where
  "clusterBadKind = \<lparr>secrets = Map.empty, configMaps = Map.empty,
     sharedResources = [badKindIntent], faults = noFaults, requests = []\<rparr>"

definition chainedIntent :: SharedResource where
  "chainedIntent =
     \<lparr>Namespace = ''backend'', Name = ''fan-out'', DeletionTimestamp = None,
      Finalizers = [''sharedresource.platform.dev/finalizer''],
      Spec = \<lparr>Source = \<lparr>Source_Kind = ''Secret'', Source_Name = ''db-credentials''\<rparr>,
              Targets = [\<lparr>Target_Namespace = ''workers'', Target_Name = []\<rparr>],
              SyncPolicy = None, DeletionPolicy = ''orphan''\<rparr>,
      Status = \<lparr>Conditions = [], SyncedTargets = [], LastSyncTime = None, SourceChecksum = []\<rparr>\<rparr>"

definition stampedSecret :: Secret where
  "stampedSecret =
     \<lparr>Secret_Annotations = trackingAnnotations sampleClock sampleIntent ''c0ffee'',
      Secret_Type = ''Opaque'', Secret_Data = sampleData\<rparr>"

definition clusterChained :: cluster where
  "clusterChained =
     \<lparr>secrets = [backendKey \<mapsto> stampedSecret], configMaps = Map.empty,
      sharedResources = [sampleIntent, chainedIntent], faults = noFaults, requests = []\<rparr>"

(*PROPERTIES*)
section \<open>Properties of the helpers\<close>

subsection \<open>filterData\<close>

lemma foldl_includeKey_lookup:
  "fmlookup (foldl (includeKey data) acc ks) k =
     (if k \<in> set ks \<and> k |\<in>| fmdom data then fmlookup data k else fmlookup acc k)"
  by (induction ks arbitrary: acc) (auto simp: includeKey_def fmlookup_dom_iff split: option.splits)

lemma foldl_includeKey:
  "foldl (includeKey data) fmempty ks = fmrestrict_set (set ks) data"
  by (rule fmap_ext) (auto simp: foldl_includeKey_lookup fmlookup_dom_iff)

lemma foldl_excludeKey:
  "foldl excludeKey filtered ks = fmdrop_set (set ks) filtered"
  by (induction ks arbitrary: filtered) (auto simp: excludeKey_def intro!: fmap_ext)

text \<open>
  C5. In a mode other than copy (selective mode) and with a key selector, \<open>filterData\<close>
  returns the pairs of the data whose keys are listed in \<open>Include\<close> (all pairs when
  \<open>Include\<close> is empty), without the keys listed in \<open>Exclude\<close>. No key of \<open>Exclude\<close> is in
  the result, also when \<open>Include\<close> lists it, and a key of \<open>Include\<close> that the data do not
  have is skipped.
\<close>

theorem filterData_include_then_exclude:
  assumes "Mode p \<noteq> []" and "Mode p \<noteq> SyncModeCopy" and "Keys p = Some ks"
  shows "filterData data (Some p) =
           fmdrop_set (set (Exclude ks))
             (if Include ks \<noteq> [] then fmrestrict_set (set (Include ks)) data else data)
         \<and> (\<forall>k \<in> set (Exclude ks). fmlookup (filterData data (Some p)) k = None)
         \<and> (\<forall>k \<in> set (Include ks). fmlookup data k = None
               \<longrightarrow> fmlookup (filterData data (Some p)) k = None)
         \<and> (\<forall>k v. fmlookup (filterData data (Some p)) k = Some v \<longleftrightarrow>
               fmlookup data k = Some v \<and> (Include ks = [] \<or> k \<in> set (Include ks))
               \<and> k \<notin> set (Exclude ks))"
proof -
  have eq: "filterData data (Some p) =
           fmdrop_set (set (Exclude ks))
             (if Include ks \<noteq> [] then fmrestrict_set (set (Include ks)) data else data)"
    using assms by (simp add: filterData_def foldl_includeKey foldl_excludeKey)
  show ?thesis
    unfolding eq by auto
qed

theorem filterData_include_then_exclude_witness:
  "Mode samplePolicy \<noteq> [] \<and> Mode samplePolicy \<noteq> SyncModeCopy
   \<and> Keys samplePolicy \<noteq> None
   \<and> fmlookup (filterData sampleData (Some samplePolicy)) ''username'' = Some ''admin''
   \<and> fmlookup (filterData sampleData (Some samplePolicy)) ''password'' = None
   \<and> fmlookup (filterData sampleData (Some samplePolicy)) ''token'' = None"
  using filterData_include_then_exclude [of samplePolicy
          "\<lparr>Include = [''username'', ''token'', ''password''], Exclude = [''password'']\<rparr>" sampleData]
  by (simp add: samplePolicy_def sampleData_def SyncModeCopy_def)


subsection \<open>setCondition\<close>

lemma setConditionIn_types:
  "set (map Condition_Type (setConditionIn cs c)) = insert (Condition_Type c) (set (map Condition_Type cs))"
  by (induction cs) auto

lemma setConditionIn_distinct:
  "distinct (map Condition_Type cs) \<Longrightarrow> distinct (map Condition_Type (setConditionIn cs c))"
proof (induction cs)
  case Nil
  then show ?case by simp
next
  case (Cons a cs)
  have "Condition_Type a \<noteq> Condition_Type c \<Longrightarrow>
        Condition_Type a \<notin> set (map Condition_Type (setConditionIn cs c))"
    using Cons.prems unfolding setConditionIn_types by auto
  with Cons show ?case by auto
qed

lemma setConditionIn_absent:
  "Condition_Type c \<notin> Condition_Type ` set cs \<Longrightarrow> setConditionIn cs c = cs @ [c]"
  by (induction cs) auto

lemma setConditionIn_present:
  "distinct (map Condition_Type cs) \<Longrightarrow> i < length cs \<Longrightarrow>
   Condition_Type (cs ! i) = Condition_Type c \<Longrightarrow>
   setConditionIn cs c =
     cs[i := if Condition_Status (cs ! i) = Condition_Status c
             then (cs ! i)\<lparr>Reason := Reason c, Message := Message c\<rparr> else c]"
proof (induction cs arbitrary: i)
  case Nil
  then show ?case by simp
next
  case (Cons a cs)
  show ?case
  proof (cases i)
    case 0
    with Cons.prems show ?thesis by simp
  next
    case (Suc j)
    with Cons.prems have j: "j < length cs" and tj: "Condition_Type (cs ! j) = Condition_Type c"
      by simp_all
    then have "Condition_Type c \<in> set (map Condition_Type cs)"
      by (metis length_map nth_map nth_mem)
    with Cons.prems(1) have "Condition_Type a \<noteq> Condition_Type c" by auto
    moreover from Cons.prems(1) have "distinct (map Condition_Type cs)" by simp
    ultimately show ?thesis
      using Cons.IH [OF _ j tj] Suc by simp
  qed
qed

lemma setConditionIn_others:
  "filter (\<lambda>x. Condition_Type x \<noteq> Condition_Type c) (setConditionIn cs c) =
   filter (\<lambda>x. Condition_Type x \<noteq> Condition_Type c) cs"
  by (induction cs) auto

lemma setCondition_Conditions:
  "Conditions (Status (setCondition now sr t st r m)) =
     setConditionIn (Conditions (Status sr)) (conditionOf now t st r m)"
  by (simp add: setCondition_def conditionOf_def)

text \<open>
  C9. When the condition list has at most one condition per type, it still has after
  \<open>setCondition\<close>. A type that was absent gets a new condition at the end, with
  \<open>LastTransitionTime = now\<close>. An entry of the type with the same status keeps every
  field but \<open>Reason\<close> and \<open>Message\<close>, so its \<open>LastTransitionTime\<close> stays; an entry with
  another status is replaced by the new condition, transition time included. Conditions of
  other types, and every other field of the Intent, are unchanged.
\<close>

theorem setCondition_invariant:
  assumes "distinct (map Condition_Type (Conditions (Status sr)))"
  shows "distinct (map Condition_Type (Conditions (Status (setCondition now sr t st r m))))
    \<and> (t \<notin> Condition_Type ` set (Conditions (Status sr)) \<longrightarrow>
         Conditions (Status (setCondition now sr t st r m)) =
           Conditions (Status sr) @ [conditionOf now t st r m])
    \<and> (\<forall>i < length (Conditions (Status sr)).
         Condition_Type (Conditions (Status sr) ! i) = t \<longrightarrow>
         Conditions (Status (setCondition now sr t st r m)) =
           (Conditions (Status sr))
             [i := if Condition_Status (Conditions (Status sr) ! i) = st
                   then (Conditions (Status sr) ! i)\<lparr>Reason := r, Message := m\<rparr>
                   else conditionOf now t st r m])
    \<and> filter (\<lambda>x. Condition_Type x \<noteq> t) (Conditions (Status (setCondition now sr t st r m))) =
        filter (\<lambda>x. Condition_Type x \<noteq> t) (Conditions (Status sr))
    \<and> setCondition now sr t st r m =
        sr\<lparr>Status := (Status sr)
             \<lparr>Conditions := Conditions (Status (setCondition now sr t st r m))\<rparr>\<rparr>"
proof -
  let ?c = "conditionOf now t st r m"
  have ty: "Condition_Type ?c = t" and st: "Condition_Status ?c = st"
    and rm: "Reason ?c = r" "Message ?c = m"
    by (simp_all add: conditionOf_def)
  have 1: "distinct (map Condition_Type (Conditions (Status (setCondition now sr t st r m))))"
    unfolding setCondition_Conditions using assms by (rule setConditionIn_distinct)
  have 2: "t \<notin> Condition_Type ` set (Conditions (Status sr)) \<longrightarrow>
         Conditions (Status (setCondition now sr t st r m)) = Conditions (Status sr) @ [?c]"
    unfolding setCondition_Conditions using setConditionIn_absent [of ?c] ty by simp
  have 3: "\<forall>i < length (Conditions (Status sr)).
         Condition_Type (Conditions (Status sr) ! i) = t \<longrightarrow>
         Conditions (Status (setCondition now sr t st r m)) =
           (Conditions (Status sr))
             [i := if Condition_Status (Conditions (Status sr) ! i) = st
                   then (Conditions (Status sr) ! i)\<lparr>Reason := r, Message := m\<rparr>
                   else ?c]"
    unfolding setCondition_Conditions
    using setConditionIn_present [OF assms, of _ ?c] ty st rm by simp
  have 4: "filter (\<lambda>x. Condition_Type x \<noteq> t) (Conditions (Status (setCondition now sr t st r m))) =
        filter (\<lambda>x. Condition_Type x \<noteq> t) (Conditions (Status sr))"
    unfolding setCondition_Conditions using setConditionIn_others [of ?c] ty by simp
  have 5: "setCondition now sr t st r m =
        sr\<lparr>Status := (Status sr)
             \<lparr>Conditions := Conditions (Status (setCondition now sr t st r m))\<rparr>\<rparr>"
    by (simp add: setCondition_def)
  from 1 2 3 4 5 show ?thesis by blast
qed

theorem setCondition_invariant_witness:
  "distinct (map Condition_Type (Conditions (Status sampleIntent)))
   \<and> Conditions (Status (setCondition 9 sampleIntent ''Ready'' ConditionFalse ''SourceNotFound'' ''gone'')) =
       [sampleConditions ! 0,
        \<lparr>Condition_Type = ''Ready'', Condition_Status = ConditionFalse, ObservedGeneration = 0,
         LastTransitionTime = 7, Reason = ''SourceNotFound'', Message = ''gone''\<rparr>]"
  using setCondition_invariant [of sampleIntent 9 "''Ready''" ConditionFalse "''SourceNotFound''" "''gone''"]
  by (simp add: sampleIntent_def sampleConditions_def setCondition_def)

section \<open>Properties of the target synchronizer\<close>

lemma fmadd_twice: "(m ++\<^sub>f n) ++\<^sub>f n = m ++\<^sub>f n"
  by (rule fmap_ext) simp

lemma fmadd_self: "m ++\<^sub>f m = m"
  by (rule fmap_ext) (auto simp: fmlookup_dom_iff)

lemma targetData_idem [simp]:
  "targetData mode (targetData mode existing data) data = targetData mode existing data"
  by (simp add: targetData_def fmadd_twice)

lemma targetData_self [simp]: "targetData mode data data = data"
  by (simp add: targetData_def fmadd_self)


lemma getSecret_Inr: "getSecret c k = Inr s \<longleftrightarrow> faults c (CallGetSecret k) = None \<and> secrets c k = Some s"
  by (auto simp: getSecret_def split: option.splits)

lemma getSecret_NotFound:
  "getSecret c k = Inl err \<Longrightarrow> IsNotFound err \<longleftrightarrow> faults c (CallGetSecret k) = None \<and> secrets c k = None"
  by (auto simp: getSecret_def IsNotFound_def split: option.splits)

lemma createSecret_ok:
  "createSecret c k s = (None, c1) \<longleftrightarrow>
     faults c (CallCreateSecret k) = None \<and> secrets c k = None
     \<and> c1 = c\<lparr>requests := requests c @ [ReqCreateSecret k s], secrets := (secrets c)(k \<mapsto> s)\<rparr>"
  by (auto simp: createSecret_def issue_def Let_def split: option.splits)

lemma updateSecret_ok:
  "updateSecret c k s = (None, c1) \<longleftrightarrow>
     faults c (CallUpdateSecret k) = None \<and> secrets c k \<noteq> None
     \<and> c1 = c\<lparr>requests := requests c @ [ReqUpdateSecret k s], secrets := (secrets c)(k \<mapsto> s)\<rparr>"
  by (auto simp: updateSecret_def issue_def Let_def split: option.splits)

lemma syncSecret_noop:
  assumes "getSecret c k = Inr existing"
    and "computeChecksum H (Secret_Data existing) =
         computeChecksum H (targetData mode (Secret_Data existing) data)"
  shows "syncSecret H c k data ty ann mode = (None, c)"
  using assms by (simp add: syncSecret_def Let_def)

lemma syncSecret_success_cases:
  assumes "syncSecret H c k data ty ann mode = (None, c1)"
  shows "(getSecret c k = Inl NotFound
          \<and> c1 = c\<lparr>requests := requests c @ [ReqCreateSecret k
                     \<lparr>Secret_Annotations = ann, Secret_Type = ty, Secret_Data = data\<rparr>],
                   secrets := (secrets c)(k \<mapsto>
                     \<lparr>Secret_Annotations = ann, Secret_Type = ty, Secret_Data = data\<rparr>)\<rparr>)
       \<or> (\<exists>existing. getSecret c k = Inr existing
            \<and> computeChecksum H (Secret_Data existing) =
                computeChecksum H (targetData mode (Secret_Data existing) data)
            \<and> c1 = c)
       \<or> (\<exists>existing. getSecret c k = Inr existing
            \<and> computeChecksum H (Secret_Data existing) \<noteq>
                computeChecksum H (targetData mode (Secret_Data existing) data)
            \<and> c1 = c\<lparr>requests := requests c @ [ReqUpdateSecret k
                     (existing\<lparr>Secret_Data := targetData mode (Secret_Data existing) data,
                        Secret_Type := ty,
                        Secret_Annotations := Secret_Annotations existing ++\<^sub>f ann\<rparr>)],
                   secrets := (secrets c)(k \<mapsto>
                     existing\<lparr>Secret_Data := targetData mode (Secret_Data existing) data,
                        Secret_Type := ty,
                        Secret_Annotations := Secret_Annotations existing ++\<^sub>f ann\<rparr>)\<rparr>)"
proof (cases "getSecret c k")
  case (Inl err)
  with assms have nf: "IsNotFound err"
    by (auto simp: syncSecret_def split: if_splits)
  with Inl assms show ?thesis
    by (auto simp: syncSecret_def createSecret_ok IsNotFound_def)
next
  case (Inr existing)
  with assms show ?thesis
    by (auto simp: syncSecret_def Let_def updateSecret_ok split: if_splits)
qed

lemma syncSecret_second:
  assumes "syncSecret H c k data ty ann mode = (None, c1)"
  shows "syncSecret H c1 k data ty ann mode = (None, c1)"
  using syncSecret_success_cases [OF assms]
proof (elim disjE exE conjE)
  assume g: "getSecret c k = Inl NotFound" and c1: "c1 = c\<lparr>requests := requests c @ [ReqCreateSecret k
                     \<lparr>Secret_Annotations = ann, Secret_Type = ty, Secret_Data = data\<rparr>],
                   secrets := (secrets c)(k \<mapsto>
                     \<lparr>Secret_Annotations = ann, Secret_Type = ty, Secret_Data = data\<rparr>)\<rparr>"
  from g have "faults c (CallGetSecret k) = None"
    by (auto simp: getSecret_def split: option.splits)
  with c1 have "getSecret c1 k = Inr \<lparr>Secret_Annotations = ann, Secret_Type = ty, Secret_Data = data\<rparr>"
    by (simp add: getSecret_Inr)
  then show ?thesis by (rule syncSecret_noop) simp
next
  fix existing
  assume "getSecret c k = Inr existing"
    "computeChecksum H (Secret_Data existing) =
       computeChecksum H (targetData mode (Secret_Data existing) data)" "c1 = c"
  then show ?thesis by (simp add: syncSecret_noop)
next
  fix existing
  assume g: "getSecret c k = Inr existing"
    and c1: "c1 = c\<lparr>requests := requests c @ [ReqUpdateSecret k
                     (existing\<lparr>Secret_Data := targetData mode (Secret_Data existing) data,
                        Secret_Type := ty,
                        Secret_Annotations := Secret_Annotations existing ++\<^sub>f ann\<rparr>)],
                   secrets := (secrets c)(k \<mapsto>
                     existing\<lparr>Secret_Data := targetData mode (Secret_Data existing) data,
                        Secret_Type := ty,
                        Secret_Annotations := Secret_Annotations existing ++\<^sub>f ann\<rparr>)\<rparr>"
  from g c1 have "getSecret c1 k = Inr (existing\<lparr>Secret_Data := targetData mode (Secret_Data existing) data,
                        Secret_Type := ty,
                        Secret_Annotations := Secret_Annotations existing ++\<^sub>f ann\<rparr>)"
    by (simp add: getSecret_Inr)
  then show ?thesis by (rule syncSecret_noop) simp
qed


lemma getConfigMap_Inr:
  "getConfigMap c k = Inr s \<longleftrightarrow> faults c (CallGetConfigMap k) = None \<and> configMaps c k = Some s"
  by (auto simp: getConfigMap_def split: option.splits)

lemma createConfigMap_ok:
  "createConfigMap c k s = (None, c1) \<longleftrightarrow>
     faults c (CallCreateConfigMap k) = None \<and> configMaps c k = None
     \<and> c1 = c\<lparr>requests := requests c @ [ReqCreateConfigMap k s],
              configMaps := (configMaps c)(k \<mapsto> s)\<rparr>"
  by (auto simp: createConfigMap_def issue_def Let_def split: option.splits)

lemma updateConfigMap_ok:
  "updateConfigMap c k s = (None, c1) \<longleftrightarrow>
     faults c (CallUpdateConfigMap k) = None \<and> configMaps c k \<noteq> None
     \<and> c1 = c\<lparr>requests := requests c @ [ReqUpdateConfigMap k s],
              configMaps := (configMaps c)(k \<mapsto> s)\<rparr>"
  by (auto simp: updateConfigMap_def issue_def Let_def split: option.splits)

lemma syncConfigMap_noop:
  assumes "getConfigMap c k = Inr existing"
    and "computeChecksum H (ConfigMap_Data existing) =
         computeChecksum H (targetData mode (ConfigMap_Data existing) data)"
  shows "syncConfigMap H c k data ann mode = (None, c)"
  using assms by (simp add: syncConfigMap_def Let_def)

lemma syncConfigMap_success_cases:
  assumes "syncConfigMap H c k data ann mode = (None, c1)"
  shows "(getConfigMap c k = Inl NotFound
          \<and> c1 = c\<lparr>requests := requests c @ [ReqCreateConfigMap k
                     \<lparr>ConfigMap_Annotations = ann, ConfigMap_Data = data\<rparr>],
                   configMaps := (configMaps c)(k \<mapsto>
                     \<lparr>ConfigMap_Annotations = ann, ConfigMap_Data = data\<rparr>)\<rparr>)
       \<or> (\<exists>existing. getConfigMap c k = Inr existing
            \<and> computeChecksum H (ConfigMap_Data existing) =
                computeChecksum H (targetData mode (ConfigMap_Data existing) data)
            \<and> c1 = c)
       \<or> (\<exists>existing. getConfigMap c k = Inr existing
            \<and> computeChecksum H (ConfigMap_Data existing) \<noteq>
                computeChecksum H (targetData mode (ConfigMap_Data existing) data)
            \<and> c1 = c\<lparr>requests := requests c @ [ReqUpdateConfigMap k
                     (existing\<lparr>ConfigMap_Data := targetData mode (ConfigMap_Data existing) data,
                        ConfigMap_Annotations := ConfigMap_Annotations existing ++\<^sub>f ann\<rparr>)],
                   configMaps := (configMaps c)(k \<mapsto>
                     existing\<lparr>ConfigMap_Data := targetData mode (ConfigMap_Data existing) data,
                        ConfigMap_Annotations := ConfigMap_Annotations existing ++\<^sub>f ann\<rparr>)\<rparr>)"
proof (cases "getConfigMap c k")
  case (Inl err)
  with assms have nf: "IsNotFound err"
    by (auto simp: syncConfigMap_def split: if_splits)
  with Inl assms show ?thesis
    by (auto simp: syncConfigMap_def createConfigMap_ok IsNotFound_def)
next
  case (Inr existing)
  with assms show ?thesis
    by (auto simp: syncConfigMap_def Let_def updateConfigMap_ok split: if_splits)
qed

lemma syncConfigMap_second:
  assumes "syncConfigMap H c k data ann mode = (None, c1)"
  shows "syncConfigMap H c1 k data ann mode = (None, c1)"
  using syncConfigMap_success_cases [OF assms]
proof (elim disjE exE conjE)
  assume g: "getConfigMap c k = Inl NotFound"
    and c1: "c1 = c\<lparr>requests := requests c @ [ReqCreateConfigMap k
                     \<lparr>ConfigMap_Annotations = ann, ConfigMap_Data = data\<rparr>],
                   configMaps := (configMaps c)(k \<mapsto>
                     \<lparr>ConfigMap_Annotations = ann, ConfigMap_Data = data\<rparr>)\<rparr>"
  from g have "faults c (CallGetConfigMap k) = None"
    by (auto simp: getConfigMap_def split: option.splits)
  with c1 have "getConfigMap c1 k = Inr \<lparr>ConfigMap_Annotations = ann, ConfigMap_Data = data\<rparr>"
    by (simp add: getConfigMap_Inr)
  then show ?thesis by (rule syncConfigMap_noop) simp
next
  fix existing
  assume "getConfigMap c k = Inr existing"
    "computeChecksum H (ConfigMap_Data existing) =
       computeChecksum H (targetData mode (ConfigMap_Data existing) data)" "c1 = c"
  then show ?thesis by (simp add: syncConfigMap_noop)
next
  fix existing
  assume g: "getConfigMap c k = Inr existing"
    and c1: "c1 = c\<lparr>requests := requests c @ [ReqUpdateConfigMap k
                     (existing\<lparr>ConfigMap_Data := targetData mode (ConfigMap_Data existing) data,
                        ConfigMap_Annotations := ConfigMap_Annotations existing ++\<^sub>f ann\<rparr>)],
                   configMaps := (configMaps c)(k \<mapsto>
                     existing\<lparr>ConfigMap_Data := targetData mode (ConfigMap_Data existing) data,
                        ConfigMap_Annotations := ConfigMap_Annotations existing ++\<^sub>f ann\<rparr>)\<rparr>"
  from g c1 have "getConfigMap c1 k =
      Inr (existing\<lparr>ConfigMap_Data := targetData mode (ConfigMap_Data existing) data,
             ConfigMap_Annotations := ConfigMap_Annotations existing ++\<^sub>f ann\<rparr>)"
    by (simp add: getConfigMap_Inr)
  then show ?thesis by (rule syncConfigMap_noop) simp
qed

lemma syncSecret_writes:
  assumes "syncSecret H c k data ty ann mode = (None, c1)"
  shows "(requests c1 = requests c \<or> (\<exists>r. requests c1 = requests c @ [r]))
       \<and> (requests c1 = requests c \<longleftrightarrow>
            (\<exists>existing. getSecret c k = Inr existing
               \<and> computeChecksum H (Secret_Data existing) =
                   computeChecksum H (targetData mode (Secret_Data existing) data)))"
  using syncSecret_success_cases [OF assms] by (elim disjE exE conjE) auto

lemma syncConfigMap_writes:
  assumes "syncConfigMap H c k data ann mode = (None, c1)"
  shows "(requests c1 = requests c \<or> (\<exists>r. requests c1 = requests c @ [r]))
       \<and> (requests c1 = requests c \<longleftrightarrow>
            (\<exists>existing. getConfigMap c k = Inr existing
               \<and> computeChecksum H (ConfigMap_Data existing) =
                   computeChecksum H (targetData mode (ConfigMap_Data existing) data)))"
  using syncConfigMap_success_cases [OF assms] by (elim disjE exE conjE) auto

lemmas sample_defs = backendKey_def noFaults_def sampleAnnotations_def clusterEmpty_def
  clusterUnmarked_def driftedData_def clusterDrifted_def sampleData_def plainDigest_def

lemmas store_defs = getSecret_def createSecret_def updateSecret_def deleteSecret_def
  getConfigMap_def createConfigMap_def updateConfigMap_def deleteConfigMap_def issue_def
  IsNotFound_def

lemmas checksum_defs = computeChecksum_def computeChecksumFrom_def hashedBytes_def hashRecord_def
  lookupBytes_def sorted_list_of_fset.rep_eq

text \<open>
  C1 (as amended). When a call of \<open>syncSecret\<close> (or \<open>syncConfigMap\<close>) succeeds, a second
  call with the same inputs on the state the first one left issues no request and leaves
  that state as it is, so the state is a fixed point of further calls. The two calls
  together issue at most one write: exactly one when the first call created the target or
  found data with another checksum than the desired data, and none when the target already
  had the desired checksum.
\<close>

theorem sync_idempotent:
  "(syncSecret H c k data ty ann mode = (None, c1) \<longrightarrow>
      syncSecret H c1 k data ty ann mode = (None, c1)
      \<and> (requests c1 = requests c \<or> (\<exists>r. requests c1 = requests c @ [r]))
      \<and> (requests c1 = requests c \<longleftrightarrow>
            (\<exists>existing. getSecret c k = Inr existing
               \<and> computeChecksum H (Secret_Data existing) =
                   computeChecksum H (targetData mode (Secret_Data existing) data))))
   \<and> (syncConfigMap H c k data ann mode = (None, c2) \<longrightarrow>
      syncConfigMap H c2 k data ann mode = (None, c2)
      \<and> (requests c2 = requests c \<or> (\<exists>r. requests c2 = requests c @ [r]))
      \<and> (requests c2 = requests c \<longleftrightarrow>
            (\<exists>existing. getConfigMap c k = Inr existing
               \<and> computeChecksum H (ConfigMap_Data existing) =
                   computeChecksum H (targetData mode (ConfigMap_Data existing) data))))"
  using syncSecret_second [of H c k data ty ann mode c1] syncSecret_writes [of H c k data ty ann mode c1]
    syncConfigMap_second [of H c k data ann mode c2] syncConfigMap_writes [of H c k data ann mode c2]
  by blast

theorem sync_idempotent_witness:
  "fst (syncSecret plainDigest clusterEmpty backendKey sampleData ''Opaque'' sampleAnnotations ''merge'') = None
   \<and> syncSecret plainDigest
        (snd (syncSecret plainDigest clusterEmpty backendKey sampleData ''Opaque'' sampleAnnotations ''merge''))
        backendKey sampleData ''Opaque'' sampleAnnotations ''merge''
      = (None, snd (syncSecret plainDigest clusterEmpty backendKey sampleData ''Opaque'' sampleAnnotations ''merge''))
   \<and> length (requests (snd (syncSecret plainDigest clusterEmpty backendKey sampleData ''Opaque''
         sampleAnnotations ''merge''))) = 1
   \<and> fst (syncConfigMap plainDigest clusterDrifted backendKey sampleData sampleAnnotations ''copy'') = None
   \<and> syncConfigMap plainDigest
        (snd (syncConfigMap plainDigest clusterDrifted backendKey sampleData sampleAnnotations ''copy''))
        backendKey sampleData sampleAnnotations ''copy''
      = (None, snd (syncConfigMap plainDigest clusterDrifted backendKey sampleData sampleAnnotations ''copy''))
   \<and> length (requests (snd (syncConfigMap plainDigest clusterDrifted backendKey sampleData
         sampleAnnotations ''copy''))) = 1"
proof -
  have s: "syncSecret plainDigest clusterEmpty backendKey sampleData ''Opaque'' sampleAnnotations ''merge''
      = (None, snd (syncSecret plainDigest clusterEmpty backendKey sampleData ''Opaque'' sampleAnnotations ''merge''))"
    by (simp add: syncSecret_def store_defs clusterEmpty_def noFaults_def)
  have m: "syncConfigMap plainDigest clusterDrifted backendKey sampleData sampleAnnotations ''copy''
      = (None, snd (syncConfigMap plainDigest clusterDrifted backendKey sampleData sampleAnnotations ''copy''))"
    by (simp add: syncConfigMap_def Let_def targetData_def store_defs checksum_defs sample_defs)
  have ls: "length (requests (snd (syncSecret plainDigest clusterEmpty backendKey sampleData ''Opaque''
         sampleAnnotations ''merge''))) = 1"
    by (simp add: syncSecret_def store_defs clusterEmpty_def noFaults_def)
  have lm: "length (requests (snd (syncConfigMap plainDigest clusterDrifted backendKey sampleData
         sampleAnnotations ''copy''))) = 1"
    by (simp add: syncConfigMap_def Let_def targetData_def store_defs checksum_defs sample_defs)
  from s ls
    sync_idempotent [of plainDigest clusterEmpty backendKey sampleData "''Opaque''" sampleAnnotations "''merge''"
      "snd (syncSecret plainDigest clusterEmpty backendKey sampleData ''Opaque'' sampleAnnotations ''merge'')"]
  have 1: "syncSecret plainDigest
        (snd (syncSecret plainDigest clusterEmpty backendKey sampleData ''Opaque'' sampleAnnotations ''merge''))
        backendKey sampleData ''Opaque'' sampleAnnotations ''merge''
      = (None, snd (syncSecret plainDigest clusterEmpty backendKey sampleData ''Opaque'' sampleAnnotations ''merge''))"
    by blast
  from m lm
    sync_idempotent [of plainDigest clusterDrifted backendKey sampleData _ sampleAnnotations "''copy''" _
      "snd (syncConfigMap plainDigest clusterDrifted backendKey sampleData sampleAnnotations ''copy'')"]
  have 2: "syncConfigMap plainDigest
        (snd (syncConfigMap plainDigest clusterDrifted backendKey sampleData sampleAnnotations ''copy''))
        backendKey sampleData sampleAnnotations ''copy''
      = (None, snd (syncConfigMap plainDigest clusterDrifted backendKey sampleData sampleAnnotations ''copy''))"
    by blast
  from s m have "fst (syncSecret plainDigest clusterEmpty backendKey sampleData ''Opaque'' sampleAnnotations ''merge'') = None"
    "fst (syncConfigMap plainDigest clusterDrifted backendKey sampleData sampleAnnotations ''copy'') = None"
    by (metis fst_conv)+
  with 1 2 ls lm show ?thesis by blast
qed


text \<open>
  C1 as stated fails when the target already holds the desired data: both calls succeed
  and no write is issued at all, not exactly one.
\<close>

theorem sync_twice_without_write:
  "fst (syncSecret plainDigest clusterUnmarked backendKey sampleData ''Opaque'' sampleAnnotations ''copy'') = None
   \<and> fst (syncSecret plainDigest
            (snd (syncSecret plainDigest clusterUnmarked backendKey sampleData ''Opaque''
                    sampleAnnotations ''copy''))
            backendKey sampleData ''Opaque'' sampleAnnotations ''copy'') = None
   \<and> requests (snd (syncSecret plainDigest
            (snd (syncSecret plainDigest clusterUnmarked backendKey sampleData ''Opaque''
                    sampleAnnotations ''copy''))
            backendKey sampleData ''Opaque'' sampleAnnotations ''copy'')) = []"
  by (simp add: syncSecret_def targetData_def store_defs clusterUnmarked_def noFaults_def)




text \<open>
  C10. When the target exists and the checksum of its data equals the checksum of the
  desired data, \<open>syncSecret\<close> (and \<open>syncConfigMap\<close>) returns no error and the store is
  exactly as before: no request is issued and the object keeps every field, its
  annotations and type included. In particular an object whose data equal the source data
  is left alone whatever tracking annotations it has or lacks.
\<close>

theorem sync_noop_frame:
  "(getSecret c k = Inr existing
      \<and> computeChecksum H (Secret_Data existing) =
          computeChecksum H (targetData mode (Secret_Data existing) data)
      \<longrightarrow> syncSecret H c k data ty ann mode = (None, c))
   \<and> (getConfigMap c k = Inr cm
      \<and> computeChecksum H (ConfigMap_Data cm) =
          computeChecksum H (targetData mode (ConfigMap_Data cm) data)
      \<longrightarrow> syncConfigMap H c k data ann mode = (None, c))
   \<and> (getSecret c k = Inr existing \<and> Secret_Data existing = data
      \<longrightarrow> syncSecret H c k data ty ann mode = (None, c))
   \<and> (getConfigMap c k = Inr cm \<and> ConfigMap_Data cm = data
      \<longrightarrow> syncConfigMap H c k data ann mode = (None, c))"
  by (auto intro: syncSecret_noop syncConfigMap_noop)

theorem sync_noop_frame_witness:
  "getSecret clusterUnmarked backendKey =
     Inr \<lparr>Secret_Annotations = fmempty, Secret_Type = ''Opaque'', Secret_Data = sampleData\<rparr>
   \<and> syncSecret plainDigest clusterUnmarked backendKey sampleData ''kubernetes.io/tls''
        sampleAnnotations ''copy'' = (None, clusterUnmarked)
   \<and> getConfigMap clusterUnmarked backendKey =
     Inr \<lparr>ConfigMap_Annotations = fmupd ''sharedresource.platform.dev/checksum'' ''stale'' fmempty,
          ConfigMap_Data = sampleData\<rparr>
   \<and> syncConfigMap plainDigest clusterUnmarked backendKey sampleData sampleAnnotations ''merge''
        = (None, clusterUnmarked)"
proof -
  have g: "getSecret clusterUnmarked backendKey =
     Inr \<lparr>Secret_Annotations = fmempty, Secret_Type = ''Opaque'', Secret_Data = sampleData\<rparr>"
    by (simp add: getSecret_def clusterUnmarked_def noFaults_def)
  have h: "getConfigMap clusterUnmarked backendKey =
     Inr \<lparr>ConfigMap_Annotations = fmupd ''sharedresource.platform.dev/checksum'' ''stale'' fmempty,
          ConfigMap_Data = sampleData\<rparr>"
    by (simp add: getConfigMap_def clusterUnmarked_def noFaults_def)
  from g h
    sync_noop_frame [where c = clusterUnmarked and k = backendKey and data = sampleData
      and existing = "\<lparr>Secret_Annotations = fmempty, Secret_Type = ''Opaque'', Secret_Data = sampleData\<rparr>"
      and cm = "\<lparr>ConfigMap_Annotations = fmupd ''sharedresource.platform.dev/checksum'' ''stale'' fmempty,
          ConfigMap_Data = sampleData\<rparr>"
      and H = plainDigest and ty = "''kubernetes.io/tls''" and ann = sampleAnnotations and mode = "''copy''"]
    sync_noop_frame [where c = clusterUnmarked and k = backendKey and data = sampleData
      and existing = "\<lparr>Secret_Annotations = fmempty, Secret_Type = ''Opaque'', Secret_Data = sampleData\<rparr>"
      and cm = "\<lparr>ConfigMap_Annotations = fmupd ''sharedresource.platform.dev/checksum'' ''stale'' fmempty,
          ConfigMap_Data = sampleData\<rparr>"
      and H = plainDigest and ty = "''kubernetes.io/tls''" and ann = sampleAnnotations and mode = "''merge''"]
  show ?thesis by simp
qed

section \<open>Properties of the deletion handler\<close>















section \<open>Properties of the reconcile pass\<close>

text \<open>
  C4 (as amended). For an Intent that is not marked for deletion, carries the finalizer and
  declares a source kind that is neither "Secret" nor "ConfigMap", the pass returns the
  error "unsupported source kind: ..." to its caller with an empty result (no requeue and
  no requeue delay of its own) and leaves the store as it was: no condition is set and no
  status update is issued.
\<close>

theorem Reconcile_unsupported_kind:
  assumes "getSharedResource c req = Inr sr"
    and "IsZero (DeletionTimestamp sr)"
    and "ContainsFinalizer sr FinalizerName"
    and "Source_Kind (Source (Spec sr)) \<noteq> KindSecret"
    and "Source_Kind (Source (Spec sr)) \<noteq> KindConfigMap"
  shows "Reconcile H clk c req =
           ((\<lparr>Requeue = False, RequeueAfter = 0\<rparr>,
             Some (Errorf (''unsupported source kind: '' @ Source_Kind (Source (Spec sr))))), c)"
  using assms
  by (simp add: Reconcile_def fetchSourceResource_def handleSourceError_def IsNotFound_def
      emptyResult_def Let_def)

theorem Reconcile_unsupported_kind_witness:
  "getSharedResource clusterBadKind (keyOf badKindIntent) = Inr badKindIntent
   \<and> IsZero (DeletionTimestamp badKindIntent)
   \<and> ContainsFinalizer badKindIntent FinalizerName
   \<and> Reconcile plainDigest sampleClock clusterBadKind (keyOf badKindIntent) =
        ((\<lparr>Requeue = False, RequeueAfter = 0\<rparr>,
          Some (Errorf ''unsupported source kind: Deployment'')), clusterBadKind)"
proof -
  have g: "getSharedResource clusterBadKind (keyOf badKindIntent) = Inr badKindIntent"
    by (simp add: getSharedResource_def keyOf_def clusterBadKind_def noFaults_def)
  have z: "IsZero (DeletionTimestamp badKindIntent)"
    by (simp add: IsZero_def badKindIntent_def sampleIntent_def)
  have f: "ContainsFinalizer badKindIntent FinalizerName"
    by (simp add: ContainsFinalizer_def badKindIntent_def sampleIntent_def FinalizerName_def)
  have k: "Source_Kind (Source (Spec badKindIntent)) \<noteq> KindSecret"
    "Source_Kind (Source (Spec badKindIntent)) \<noteq> KindConfigMap"
    by (simp_all add: badKindIntent_def KindSecret_def KindConfigMap_def)
  have n: "Source_Kind (Source (Spec badKindIntent)) = ''Deployment''"
    by (simp add: badKindIntent_def)
  from Reconcile_unsupported_kind [OF g z f k, of plainDigest sampleClock] g z f n
  show ?thesis by simp
qed

text \<open>
  C4 as stated fails: for the source kind "Deployment" the pass ends with the error and the
  Intent's status has no condition afterwards.
\<close>

theorem Reconcile_unsupported_kind_not_in_status:
  "Source_Kind (Source (Spec badKindIntent)) \<noteq> ''Secret''
   \<and> Source_Kind (Source (Spec badKindIntent)) \<noteq> ''ConfigMap''
   \<and> Reconcile plainDigest sampleClock clusterBadKind (keyOf badKindIntent) =
       ((emptyResult, Some (Errorf ''unsupported source kind: Deployment'')), clusterBadKind)
   \<and> requests clusterBadKind = []
   \<and> map (\<lambda>x. Conditions (Status x)) (sharedResources clusterBadKind) = [[]]"
  by (simp add: Reconcile_def fetchSourceResource_def handleSourceError_def IsNotFound_def
      Let_def getSharedResource_def keyOf_def IsZero_def ContainsFinalizer_def
      clusterBadKind_def badKindIntent_def sampleIntent_def noFaults_def
      FinalizerName_def KindSecret_def KindConfigMap_def)

section \<open>Properties of the correlation functions\<close>

lemma lookup_trackingAnnotations:
  "lookupBytes (ann ++\<^sub>f trackingAnnotations clk sr cs) AnnotationSourceNamespace = Namespace sr"
  "lookupBytes (ann ++\<^sub>f trackingAnnotations clk sr cs) AnnotationSourceCR = Name sr"
  "fmlookup (ann ++\<^sub>f trackingAnnotations clk sr cs) AnnotationManagedBy = Some ManagedByValue"
  by (simp_all add: lookupBytes_def trackingAnnotations_def AnnotationSourceNamespace_def
      AnnotationSourceCR_def AnnotationManagedBy_def AnnotationSourceName_def
      AnnotationChecksum_def AnnotationLastSynced_def fmlookup_of_list fmlookup_dom_iff)

lemma findSharedResourcesForSource_set:
  "faults c (CallList ns) = None \<Longrightarrow>
     set (findSharedResourcesForSource c ns name kind) =
       keyOf ` {sr \<in> set (sharedResources c). Namespace sr = ns
                  \<and> Source_Kind (Source (Spec sr)) = kind
                  \<and> Source_Name (Source (Spec sr)) = name}"
  by (auto simp: findSharedResourcesForSource_def listSharedResources_def)

lemma findSharedResourcesForSource_fault:
  "faults c (CallList ns) \<noteq> None \<Longrightarrow> findSharedResourcesForSource c ns name kind = []"
  by (auto simp: findSharedResourcesForSource_def listSharedResources_def)

lemmas annotation_defs = AnnotationManagedBy_def AnnotationSourceNamespace_def
  AnnotationSourceName_def AnnotationSourceCR_def AnnotationChecksum_def
  AnnotationLastSynced_def ManagedByValue_def

text \<open>
  C7 (as amended). For a changed Secret or ConfigMap that carries the managed-by annotation
  with the controller's value, the correlation functions read the source-namespace and
  source-cr annotations and return the one request they name, without listing Intents, and
  no request when either annotation is missing or empty. For any other object they return
  the Intents of the object's namespace whose declared source kind and name match it, and
  no request when the listing fails. So a target that still carries the annotations the
  synchronizer stamped on it enqueues the owning Intent, a source without the managed-by
  annotation enqueues every Intent of its namespace that declares it, and an object that
  matches neither produces no request.
\<close>

theorem correlation_classification:
  "(fmlookup (Secret_Annotations s) AnnotationManagedBy = Some ManagedByValue \<longrightarrow>
      findSharedResourcesForSecret c k s =
        (if lookupBytes (Secret_Annotations s) AnnotationSourceNamespace \<noteq> []
            \<and> lookupBytes (Secret_Annotations s) AnnotationSourceCR \<noteq> []
         then [(lookupBytes (Secret_Annotations s) AnnotationSourceNamespace,
                lookupBytes (Secret_Annotations s) AnnotationSourceCR)]
         else []))
   \<and> (fmlookup (ConfigMap_Annotations m) AnnotationManagedBy = Some ManagedByValue \<longrightarrow>
      findSharedResourcesForConfigMap c k m =
        (if lookupBytes (ConfigMap_Annotations m) AnnotationSourceNamespace \<noteq> []
            \<and> lookupBytes (ConfigMap_Annotations m) AnnotationSourceCR \<noteq> []
         then [(lookupBytes (ConfigMap_Annotations m) AnnotationSourceNamespace,
                lookupBytes (ConfigMap_Annotations m) AnnotationSourceCR)]
         else []))
   \<and> (fmlookup (Secret_Annotations s) AnnotationManagedBy \<noteq> Some ManagedByValue \<longrightarrow>
      findSharedResourcesForSecret c k s = findSharedResourcesForSource c (fst k) (snd k) ''Secret'')
   \<and> (fmlookup (ConfigMap_Annotations m) AnnotationManagedBy \<noteq> Some ManagedByValue \<longrightarrow>
      findSharedResourcesForConfigMap c k m =
        findSharedResourcesForSource c (fst k) (snd k) ''ConfigMap'')
   \<and> (faults c (CallList (fst k)) = None \<longrightarrow>
        set (findSharedResourcesForSource c (fst k) (snd k) kind) =
          keyOf ` {sr \<in> set (sharedResources c). Namespace sr = fst k
                     \<and> Source_Kind (Source (Spec sr)) = kind
                     \<and> Source_Name (Source (Spec sr)) = snd k})
   \<and> (faults c (CallList (fst k)) \<noteq> None \<longrightarrow>
        findSharedResourcesForSource c (fst k) (snd k) kind = [])
   \<and> (Namespace sr \<noteq> [] \<and> Name sr \<noteq> [] \<longrightarrow>
        findSharedResourcesForSecret c k
          \<lparr>Secret_Annotations = ann ++\<^sub>f trackingAnnotations clk sr cs,
           Secret_Type = ty, Secret_Data = d\<rparr> = [keyOf sr]
        \<and> findSharedResourcesForConfigMap c k
          \<lparr>ConfigMap_Annotations = ann ++\<^sub>f trackingAnnotations clk sr cs,
           ConfigMap_Data = d\<rparr> = [keyOf sr])"
proof -
  have 1: "fmlookup (Secret_Annotations s) AnnotationManagedBy = Some ManagedByValue \<longrightarrow>
      findSharedResourcesForSecret c k s =
        (if lookupBytes (Secret_Annotations s) AnnotationSourceNamespace \<noteq> []
            \<and> lookupBytes (Secret_Annotations s) AnnotationSourceCR \<noteq> []
         then [(lookupBytes (Secret_Annotations s) AnnotationSourceNamespace,
                lookupBytes (Secret_Annotations s) AnnotationSourceCR)]
         else [])"
    by (simp add: findSharedResourcesForSecret_def findSharedResourceForManagedResource_def Let_def)
  have 2: "fmlookup (ConfigMap_Annotations m) AnnotationManagedBy = Some ManagedByValue \<longrightarrow>
      findSharedResourcesForConfigMap c k m =
        (if lookupBytes (ConfigMap_Annotations m) AnnotationSourceNamespace \<noteq> []
            \<and> lookupBytes (ConfigMap_Annotations m) AnnotationSourceCR \<noteq> []
         then [(lookupBytes (ConfigMap_Annotations m) AnnotationSourceNamespace,
                lookupBytes (ConfigMap_Annotations m) AnnotationSourceCR)]
         else [])"
    by (simp add: findSharedResourcesForConfigMap_def findSharedResourceForManagedResource_def Let_def)
  have 3: "fmlookup (Secret_Annotations s) AnnotationManagedBy \<noteq> Some ManagedByValue \<longrightarrow>
      findSharedResourcesForSecret c k s = findSharedResourcesForSource c (fst k) (snd k) ''Secret''"
    by (simp add: findSharedResourcesForSecret_def)
  have 4: "fmlookup (ConfigMap_Annotations m) AnnotationManagedBy \<noteq> Some ManagedByValue \<longrightarrow>
      findSharedResourcesForConfigMap c k m =
        findSharedResourcesForSource c (fst k) (snd k) ''ConfigMap''"
    by (simp add: findSharedResourcesForConfigMap_def)
  have 5: "faults c (CallList (fst k)) = None \<longrightarrow>
        set (findSharedResourcesForSource c (fst k) (snd k) kind) =
          keyOf ` {sr \<in> set (sharedResources c). Namespace sr = fst k
                     \<and> Source_Kind (Source (Spec sr)) = kind
                     \<and> Source_Name (Source (Spec sr)) = snd k}"
    using findSharedResourcesForSource_set by blast
  have 6: "faults c (CallList (fst k)) \<noteq> None \<longrightarrow>
        findSharedResourcesForSource c (fst k) (snd k) kind = []"
    using findSharedResourcesForSource_fault by blast
  have 7: "Namespace sr \<noteq> [] \<and> Name sr \<noteq> [] \<longrightarrow>
        findSharedResourcesForSecret c k
          \<lparr>Secret_Annotations = ann ++\<^sub>f trackingAnnotations clk sr cs,
           Secret_Type = ty, Secret_Data = d\<rparr> = [keyOf sr]
        \<and> findSharedResourcesForConfigMap c k
          \<lparr>ConfigMap_Annotations = ann ++\<^sub>f trackingAnnotations clk sr cs,
           ConfigMap_Data = d\<rparr> = [keyOf sr]"
    by (simp add: findSharedResourcesForSecret_def findSharedResourcesForConfigMap_def
        findSharedResourceForManagedResource_def Let_def lookup_trackingAnnotations keyOf_def
        del: fmlookup_add)
  from 1 2 3 4 5 6 7 show ?thesis by blast
qed

theorem correlation_classification_witness:
  "fmlookup (Secret_Annotations stampedSecret) AnnotationManagedBy = Some ManagedByValue
   \<and> findSharedResourcesForSecret clusterChained backendKey stampedSecret = [keyOf sampleIntent]
   \<and> fmlookup fmempty AnnotationManagedBy \<noteq> Some ManagedByValue
   \<and> faults clusterChained (CallList (fst backendKey)) = None
   \<and> findSharedResourcesForSecret clusterChained backendKey
        \<lparr>Secret_Annotations = fmempty, Secret_Type = ''Opaque'', Secret_Data = sampleData\<rparr>
        = [keyOf chainedIntent]
   \<and> findSharedResourcesForConfigMap clusterChained backendKey
        \<lparr>ConfigMap_Annotations = fmempty, ConfigMap_Data = sampleData\<rparr> = []"
  using correlation_classification [where c = clusterChained and k = backendKey
      and s = stampedSecret and m = "\<lparr>ConfigMap_Annotations = fmempty, ConfigMap_Data = sampleData\<rparr>"
      and kind = "''Secret''" and sr = sampleIntent and ann = fmempty and clk = sampleClock
      and cs = "''c0ffee''" and ty = "''Opaque''" and d = sampleData]
    correlation_classification [where c = clusterChained and k = backendKey
      and s = "\<lparr>Secret_Annotations = fmempty, Secret_Type = ''Opaque'', Secret_Data = sampleData\<rparr>"
      and m = "\<lparr>ConfigMap_Annotations = fmempty, ConfigMap_Data = sampleData\<rparr>"
      and kind = "''ConfigMap''"]
  by (simp add: findSharedResourcesForSecret_def findSharedResourcesForConfigMap_def
      findSharedResourcesForSource_def listSharedResources_def
      findSharedResourceForManagedResource_def Let_def
      lookupBytes_def trackingAnnotations_def fmlookup_of_list annotation_defs
      clusterChained_def chainedIntent_def stampedSecret_def sampleIntent_def backendKey_def
      noFaults_def keyOf_def)

text \<open>
  C7 as stated fails for a source that is itself a managed target: only the Intent that
  owns it is enqueued, not the Intent that declares it as source. It also fails for a
  managed object without the source annotations, which produces no request.
\<close>

theorem correlation_misses_chained_source:
  "chainedIntent \<in> set (sharedResources clusterChained)
   \<and> (Namespace chainedIntent, Source_Name (Source (Spec chainedIntent))) = backendKey
   \<and> Source_Kind (Source (Spec chainedIntent)) = ''Secret''
   \<and> findSharedResourcesForSecret clusterChained backendKey stampedSecret =
        [(''security'', ''sync-db-credentials'')]
   \<and> keyOf chainedIntent \<notin> set (findSharedResourcesForSecret clusterChained backendKey stampedSecret)
   \<and> findSharedResourcesForSecret clusterChained backendKey
        \<lparr>Secret_Annotations = sampleAnnotations, Secret_Type = ''Opaque'', Secret_Data = sampleData\<rparr>
        = []"
  by (simp add: findSharedResourcesForSecret_def findSharedResourceForManagedResource_def Let_def
      lookupBytes_def trackingAnnotations_def fmlookup_of_list annotation_defs
      clusterChained_def chainedIntent_def stampedSecret_def sampleIntent_def backendKey_def
      sampleAnnotations_def keyOf_def)

end
